theory Spec2Isabelle
  imports Complex_Main "HOL-Library.Word"
begin

unbundle bit_operations_syntax

section \<open>Conventions\<close>

text \<open>
  The development embeds the vector-record layer of DRAB
  (\<^verbatim>\<open>src/drab/src/services/vector.service.ts\<close>,
  \<^verbatim>\<open>src/drab/src/services/embedding.service.ts\<close>,
  \<^verbatim>\<open>src/drab/src/routes/query.routes.ts\<close>).

  \<^item> A JavaScript string is a \<open>string\<close>; one \<open>char\<close> stands for one UTF-16 code unit
    below 256, so the model covers ASCII and Latin-1 text. \<open>length\<close>, \<open>take\<close> and
    \<open>drop\<close> count code units, as \<^verbatim>\<open>substring\<close> does.
  \<^item> A JavaScript number is a \<open>real\<close>, or a \<open>nat\<close> where it is a length.
  \<^item> A thrown value is a \<open>thrown\<close>; a function that may throw returns
    \<open>thrown + 'a\<close>, with \<open>Inl\<close> the exception.
  \<^item> \<^verbatim>\<open>uuidv4()\<close> and \<^verbatim>\<open>new Date().toISOString()\<close> read the environment:
    the value the call returns is an argument of the model (\<open>u\<close>, \<open>now\<close>).
\<close>

datatype thrown = Error string | NonError

text \<open>\<^verbatim>\<open>error instanceof Error ? error.message : 'Unknown error'\<close>\<close>

definition message_of :: "thrown \<Rightarrow> string" where
  "message_of e = (case e of Error m \<Rightarrow> m | NonError \<Rightarrow> ''Unknown error'')"

section \<open>Numbers in template strings\<close>

definition digit_char :: "nat \<Rightarrow> char" where
  "digit_char d = ''0123456789abcdef'' ! d"

text \<open>\<^verbatim>\<open>`${n}`\<close> for a non-negative integer \<open>n\<close>: its decimal digits.\<close>

function show_nat :: "nat \<Rightarrow> string" where
  "show_nat n = (if n < 10 then [digit_char n] else show_nat (n div 10) @ [digit_char (n mod 10)])"
  by pat_completeness auto
termination
  by (relation "measure id") auto

declare show_nat.simps [simp del]

section \<open>SHA-256 (Node's \<^verbatim>\<open>crypto.createHash('sha256')\<close>)\<close>

text \<open>
  The digest is a library function of the runtime, written out here after FIPS 180-4 so
  that key derivation is a closed, executable function.
\<close>

type_synonym w32 = "32 word"

definition rotr :: "nat \<Rightarrow> w32 \<Rightarrow> w32" where
  "rotr n x = (drop_bit n x) OR (push_bit (32 - n) x)"

definition Ch :: "w32 \<Rightarrow> w32 \<Rightarrow> w32 \<Rightarrow> w32" where
  "Ch x y z = (x AND y) XOR (NOT x AND z)"

definition Maj :: "w32 \<Rightarrow> w32 \<Rightarrow> w32 \<Rightarrow> w32" where
  "Maj x y z = (x AND y) XOR (x AND z) XOR (y AND z)"

definition bsig0 :: "w32 \<Rightarrow> w32" where
  "bsig0 x = rotr 2 x XOR rotr 13 x XOR rotr 22 x"

definition bsig1 :: "w32 \<Rightarrow> w32" where
  "bsig1 x = rotr 6 x XOR rotr 11 x XOR rotr 25 x"

definition ssig0 :: "w32 \<Rightarrow> w32" where
  "ssig0 x = rotr 7 x XOR rotr 18 x XOR drop_bit 3 x"

definition ssig1 :: "w32 \<Rightarrow> w32" where
  "ssig1 x = rotr 17 x XOR rotr 19 x XOR drop_bit 10 x"

definition sha_K :: "w32 list" where
  "sha_K =
    [0x428A2F98, 0x71374491, 0xB5C0FBCF, 0xE9B5DBA5, 0x3956C25B, 0x59F111F1, 0x923F82A4, 0xAB1C5ED5,
     0xD807AA98, 0x12835B01, 0x243185BE, 0x550C7DC3, 0x72BE5D74, 0x80DEB1FE, 0x9BDC06A7, 0xC19BF174,
     0xE49B69C1, 0xEFBE4786, 0x0FC19DC6, 0x240CA1CC, 0x2DE92C6F, 0x4A7484AA, 0x5CB0A9DC, 0x76F988DA,
     0x983E5152, 0xA831C66D, 0xB00327C8, 0xBF597FC7, 0xC6E00BF3, 0xD5A79147, 0x06CA6351, 0x14292967,
     0x27B70A85, 0x2E1B2138, 0x4D2C6DFC, 0x53380D13, 0x650A7354, 0x766A0ABB, 0x81C2C92E, 0x92722C85,
     0xA2BFE8A1, 0xA81A664B, 0xC24B8B70, 0xC76C51A3, 0xD192E819, 0xD6990624, 0xF40E3585, 0x106AA070,
     0x19A4C116, 0x1E376C08, 0x2748774C, 0x34B0BCB5, 0x391C0CB3, 0x4ED8AA4A, 0x5B9CCA4F, 0x682E6FF3,
     0x748F82EE, 0x78A5636F, 0x84C87814, 0x8CC70208, 0x90BEFFFA, 0xA4506CEB, 0xBEF9A3F7, 0xC67178F2]"

type_synonym sha_state = "w32 \<times> w32 \<times> w32 \<times> w32 \<times> w32 \<times> w32 \<times> w32 \<times> w32"

definition sha_H0 :: sha_state where
  "sha_H0 = (0x6A09E667, 0xBB67AE85, 0x3C6EF372, 0xA54FF53A,
             0x510E527F, 0x9B05688C, 0x1F83D9AB, 0x5BE0CD19)"

text \<open>The UTF-8 bytes of a string of code units below 256.\<close>

definition utf8 :: "string \<Rightarrow> nat list" where
  "utf8 s = concat (map (\<lambda>c. let n = of_char c :: nat in
       if n < 128 then [n] else [192 + n div 64, 128 + n mod 64]) s)"

fun be_bytes :: "nat \<Rightarrow> nat \<Rightarrow> nat list" where
  "be_bytes 0 n = []"
| "be_bytes (Suc k) n = be_bytes k (n div 256) @ [n mod 256]"

definition sha_pad :: "nat list \<Rightarrow> nat list" where
  "sha_pad m = m @ [128] @ replicate ((119 - length m mod 64) mod 64) 0 @ be_bytes 8 (8 * length m)"

fun be_words :: "nat list \<Rightarrow> w32 list" where
  "be_words (a # b # c # d # bs) =
     (((word_of_nat a * 256 + word_of_nat b) * 256 + word_of_nat c) * 256 + word_of_nat d)
       # be_words bs"
| "be_words _ = []"

fun sha_extend :: "nat \<Rightarrow> w32 list \<Rightarrow> w32 list" where
  "sha_extend 0 w = w"
| "sha_extend (Suc n) w =
     (let t = length w in
      sha_extend n (w @ [ssig1 (w ! (t - 2)) + w ! (t - 7) + ssig0 (w ! (t - 15)) + w ! (t - 16)]))"

definition sha_round :: "w32 \<times> w32 \<Rightarrow> sha_state \<Rightarrow> sha_state" where
  "sha_round kw s = (case (kw, s) of ((k, w), (a, b, c, d, e, f, g, h)) \<Rightarrow>
     let t1 = h + bsig1 e + Ch e f g + k + w;
         t2 = bsig0 a + Maj a b c
     in (t1 + t2, a, b, c, d + t1, e, f, g))"

definition sha_add :: "sha_state \<Rightarrow> sha_state \<Rightarrow> sha_state" where
  "sha_add s t = (case (s, t) of ((a, b, c, d, e, f, g, h), (a', b', c', d', e', f', g', h')) \<Rightarrow>
     (a + a', b + b', c + c', d + d', e + e', f + f', g + g', h + h'))"

definition sha_block :: "sha_state \<Rightarrow> w32 list \<Rightarrow> sha_state" where
  "sha_block s ws = sha_add s (fold sha_round (zip sha_K (sha_extend 48 ws)) s)"

fun sha_blocks :: "nat \<Rightarrow> sha_state \<Rightarrow> w32 list \<Rightarrow> sha_state" where
  "sha_blocks 0 s ws = s"
| "sha_blocks (Suc n) s ws = sha_blocks n (sha_block s (take 16 ws)) (drop 16 ws)"

definition sha256 :: "string \<Rightarrow> sha_state" where
  "sha256 s = (let ws = be_words (sha_pad (utf8 s)) in sha_blocks (length ws div 16) sha_H0 ws)"

text \<open>\<^verbatim>\<open>.digest('hex')\<close>: 64 lower-case hexadecimal digits.\<close>

definition hex32 :: "w32 \<Rightarrow> string" where
  "hex32 w = map (\<lambda>i. digit_char (unat (drop_bit (4 * i) w AND 15))) [7, 6, 5, 4, 3, 2, 1, 0]"

definition hex_digest :: "sha_state \<Rightarrow> string" where
  "hex_digest s = (case s of (a, b, c, d, e, f, g, h) \<Rightarrow>
     hex32 a @ hex32 b @ hex32 c @ hex32 d @ hex32 e @ hex32 f @ hex32 g @ hex32 h)"

definition sha256_hex :: "string \<Rightarrow> string" where
  "sha256_hex s = hex_digest (sha256 s)"

section \<open>Key derivation: \<^verbatim>\<open>VectorService.convertToValidId\<close>\<close>

definition is_digit :: "char \<Rightarrow> bool" where
  "is_digit c = (c \<in> set ''0123456789'')"

text \<open>\<^verbatim>\<open>[0-9a-f]\<close> under the flag \<^verbatim>\<open>i\<close>.\<close>

definition is_hex :: "char \<Rightarrow> bool" where
  "is_hex c = (c \<in> set ''0123456789abcdefABCDEF'')"

text \<open>
  \<^verbatim>\<open>/^[0-9a-f]{8}-[0-9a-f]{4}-[1-5][0-9a-f]{3}-[89ab][0-9a-f]{3}-[0-9a-f]{12}$/i.test(s)\<close>:
  the pattern is anchored at both ends and every piece has a fixed width, so it matches
  exactly the strings of 36 code units with the right class at each position.
\<close>

definition uuidRegex_test :: "string \<Rightarrow> bool" where
  "uuidRegex_test s =
    (length s = 36 \<and>
     list_all is_hex (take 8 s) \<and> s ! 8 = CHR ''-'' \<and>
     list_all is_hex (take 4 (drop 9 s)) \<and> s ! 13 = CHR ''-'' \<and>
     s ! 14 \<in> set ''12345'' \<and> list_all is_hex (take 3 (drop 15 s)) \<and> s ! 18 = CHR ''-'' \<and>
     s ! 19 \<in> set ''89abAB'' \<and> list_all is_hex (take 3 (drop 20 s)) \<and> s ! 23 = CHR ''-'' \<and>
     list_all is_hex (take 12 (drop 24 s)))"

text \<open>\<^verbatim>\<open>s.substring(i, j)\<close> for \<open>i \<le> j\<close>.\<close>

definition substring :: "nat \<Rightarrow> nat \<Rightarrow> string \<Rightarrow> string" where
  "substring i j s = take (j - i) (drop i s)"

text \<open>
  \<^verbatim>\<open>parseInt(c, 16)\<close> on a string of one code unit: the digit's value, or \<^verbatim>\<open>NaN\<close>
  (\<open>None\<close>).
\<close>

definition parseInt16 :: "string \<Rightarrow> nat option" where
  "parseInt16 s = (case s of
      [c] \<Rightarrow> (if is_hex c
              then Some (if is_digit c then of_char c - 48
                         else if of_char c \<ge> (97::nat) then of_char c - 87 else of_char c - 55)
              else None)
    | _ \<Rightarrow> None)"

text \<open>
  \<^verbatim>\<open>((parseInt(h, 16) & 0x3) | 0x8).toString(16)\<close>; \<^verbatim>\<open>NaN & 0x3\<close> is 0.
\<close>

definition variant_char :: "string \<Rightarrow> string" where
  "variant_char h = [digit_char (((case parseInt16 h of None \<Rightarrow> 0 | Some v \<Rightarrow> v) AND 3) OR 8)]"

definition format_uuid :: "string \<Rightarrow> string" where
  "format_uuid hash =
     substring 0 8 hash @ ''-'' @
     substring 8 12 hash @ ''-'' @
     (''4'' @ substring 13 16 hash) @ ''-'' @
     (variant_char (substring 16 17 hash) @ substring 17 20 hash) @ ''-'' @
     substring 20 32 hash"

text \<open>
  \<open>u\<close> is the value of \<^verbatim>\<open>uuidv4()\<close>, were it called. \<^verbatim>\<open>!customId\<close> holds for
  \<^verbatim>\<open>undefined\<close> and for the empty string.
\<close>

definition convertToValidId :: "string \<Rightarrow> string option \<Rightarrow> string" where
  "convertToValidId u customId =
    (case customId of
       None \<Rightarrow> u
     | Some c \<Rightarrow>
         if c = [] then u
         else if uuidRegex_test c then c
         else format_uuid (sha256_hex c))"

section \<open>Data model (\<^verbatim>\<open>types\<close>)\<close>

datatype json = JNull | JBool bool | JNum real | JStr string
  | JArr "json list" | JObj "(string \<times> json) list"

text \<open>\<^verbatim>\<open>Record<string, any>\<close>\<close>

type_synonym metadata = "(string \<times> json) list"

text \<open>
  \<^verbatim>\<open>VectorRecord\<close>. The services test \<^verbatim>\<open>record.id\<close> and \<^verbatim>\<open>record.metadata\<close> for
  \<^verbatim>\<open>undefined\<close> (the route passes \<^verbatim>\<open>id || undefined\<close>), so both are optional here.
\<close>

record VectorRecord =
  vr_id :: "string option"
  vr_text :: string
  vr_embedding :: "real list"
  vr_metadata :: "metadata option"

record QueryResult =
  qr_id :: string
  qr_text :: string
  qr_score :: real
  qr_metadata :: metadata

text \<open>\<^verbatim>\<open>x || y\<close> on an optional string: the empty string is falsy.\<close>

definition or_else :: "string option \<Rightarrow> string \<Rightarrow> string" where
  "or_else x y = (case x of None \<Rightarrow> y | Some s \<Rightarrow> if s = [] then y else s)"

text \<open>\<^verbatim>\<open>record.metadata || {}\<close>: an object is truthy.\<close>

definition metadata_or_empty :: "metadata option \<Rightarrow> metadata" where
  "metadata_or_empty m = (case m of None \<Rightarrow> [] | Some x \<Rightarrow> x)"

section \<open>The Vector Store\<close>

text \<open>
  The Qdrant client is an external collaborator. Its points, as this service writes
  them: a key, a vector and a payload, whose \<open>original_id\<close> is absent when the service
  wrote none.
\<close>

record payload =
  original_id :: "string option"
  p_text :: string
  p_metadata :: metadata
  created_at :: string

record point =
  point_id :: string
  vector :: "real list"
  payload :: payload

text \<open>
  The state of the collection is its points. Any call of the client may fail (the
  service catches such failures), so the state carries a script of the failures to
  come: each call takes the head, \<open>Some e\<close> makes the call throw \<open>e\<close>, and an empty
  script means that no call fails.
\<close>

record store =
  points :: "point list"
  faults :: "thrown option list"

type_synonym 'a io = "store \<Rightarrow> (thrown + 'a) \<times> store"

definition return_io :: "'a \<Rightarrow> 'a io" where
  "return_io x st = (Inr x, st)"

definition throw_io :: "thrown \<Rightarrow> 'a io" where
  "throw_io e st = (Inl e, st)"

definition bind_io :: "'a io \<Rightarrow> ('a \<Rightarrow> 'b io) \<Rightarrow> 'b io" where
  "bind_io m f st = (case m st of (Inl e, st') \<Rightarrow> (Inl e, st') | (Inr x, st') \<Rightarrow> f x st')"

text \<open>\<^verbatim>\<open>try { m } catch (e) { h(e) }\<close>\<close>

definition try_catch :: "'a io \<Rightarrow> (thrown \<Rightarrow> 'a io) \<Rightarrow> 'a io" where
  "try_catch m h st = (case m st of (Inl e, st') \<Rightarrow> h e st' | (Inr x, st') \<Rightarrow> (Inr x, st'))"

text \<open>
  \<^verbatim>\<open>catch (error) { throw new Error(`<prefix>${error instanceof Error ? error.message : 'Unknown error'}`) }\<close>
\<close>

definition rethrow :: "string \<Rightarrow> thrown \<Rightarrow> 'a io" where
  "rethrow prefix e = throw_io (Error (prefix @ message_of e))"

definition client_call :: "(point list \<Rightarrow> 'a \<times> point list) \<Rightarrow> 'a io" where
  "client_call f st =
     (case faults st of
        Some e # fs \<Rightarrow> (Inl e, st\<lparr>faults := fs\<rparr>)
      | None # fs \<Rightarrow> (case f (points st) of (x, ps) \<Rightarrow> (Inr x, st\<lparr>points := ps, faults := fs\<rparr>))
      | [] \<Rightarrow> (case f (points st) of (x, ps) \<Rightarrow> (Inr x, st\<lparr>points := ps\<rparr>)))"

text \<open>
  Modelled from the spec: the Vector Store's \<^verbatim>\<open>upsert\<close> (the Qdrant client is not part of
  the repository), insert-or-replace of a point by key. Keys are compared as strings.
\<close>

definition upsert_point :: "point \<Rightarrow> point list \<Rightarrow> point list" where
  "upsert_point p ps =
     (if list_ex (\<lambda>q. point_id q = point_id p) ps
      then map (\<lambda>q. if point_id q = point_id p then p else q) ps
      else ps @ [p])"

text \<open>Modelled from the spec: \<^verbatim>\<open>upsert(points, wait-for-ack)\<close>, the points taken in order.\<close>

definition client_upsert :: "point list \<Rightarrow> unit io" where
  "client_upsert new = client_call (\<lambda>ps. ((), fold upsert_point new ps))"

text \<open>
  Modelled from the spec: \<^verbatim>\<open>retrieve(keys, with_payload, with_vector)\<close>, the points that
  have one of the keys.
\<close>

definition client_retrieve :: "string list \<Rightarrow> point list io" where
  "client_retrieve ids = client_call (\<lambda>ps. (filter (\<lambda>p. point_id p \<in> set ids) ps, ps))"

text \<open>
  Modelled from the spec: \<^verbatim>\<open>scroll(payload_filter, limit)\<close> with the filter
  \<^verbatim>\<open>original_id == v\<close>, at most \<open>limit\<close> matching points.
\<close>

definition client_scroll :: "string \<Rightarrow> nat \<Rightarrow> point list io" where
  "client_scroll v limit =
     client_call (\<lambda>ps. (take limit (filter (\<lambda>p. original_id (payload p) = Some v) ps), ps))"

text \<open>
  Modelled from the spec: \<^verbatim>\<open>delete(keys, wait-for-ack)\<close> removes the points that have one
  of the keys; as in Qdrant, the call succeeds when no point has.
\<close>

definition client_delete :: "string list \<Rightarrow> unit io" where
  "client_delete ids = client_call (\<lambda>ps. ((), filter (\<lambda>p. point_id p \<notin> set ids) ps))"

text \<open>
  Modelled from the spec: cosine similarity, the collection's ranking metric
  (\<^verbatim>\<open>distance: 'Cosine'\<close>), over the reals.
\<close>

definition dot :: "real list \<Rightarrow> real list \<Rightarrow> real" where
  "dot a b = sum_list (map (\<lambda>(x, y). x * y) (zip a b))"

definition cosine :: "real list \<Rightarrow> real list \<Rightarrow> real" where
  "cosine a b = dot a b / (sqrt (dot a a) * sqrt (dot b b))"

text \<open>
  Modelled from the spec: \<^verbatim>\<open>search(vector, limit, score_threshold, with_payload)\<close>, the
  points whose score reaches the threshold, by descending score, at most \<open>limit\<close> of them.
\<close>

definition client_search :: "real list \<Rightarrow> int \<Rightarrow> real \<Rightarrow> (point \<times> real) list io" where
  "client_search q limit score_threshold =
     client_call (\<lambda>ps.
       (take (nat limit)
          (sort_key (\<lambda>(p, s). - s)
             (filter (\<lambda>(p, s). score_threshold \<le> s) (map (\<lambda>p. (p, cosine q (vector p))) ps))),
        ps))"

section \<open>\<^verbatim>\<open>VectorService\<close>\<close>

definition vectorSize :: nat where
  "vectorSize = 384"

text \<open>
  \<^verbatim>\<open>storeVector(record)\<close>. \<open>u\<close> is the value of \<^verbatim>\<open>uuidv4()\<close>, \<open>now\<close> that of
  \<^verbatim>\<open>new Date().toISOString()\<close>.
\<close>

definition storeVector :: "string \<Rightarrow> string \<Rightarrow> VectorRecord \<Rightarrow> string io" where
  "storeVector u now record =
     try_catch
       (let originalId = vr_id record;
            qdrantId = convertToValidId u (vr_id record)
        in if length (vr_embedding record) \<noteq> vectorSize
           then throw_io (Error (''Embedding dimension mismatch. Expected '' @ show_nat vectorSize
                                  @ '', got '' @ show_nat (length (vr_embedding record))))
           else
             let point = \<lparr>point_id = qdrantId, vector = vr_embedding record,
                          payload = \<lparr>original_id = originalId, p_text = vr_text record,
                                     p_metadata = metadata_or_empty (vr_metadata record),
                                     created_at = now\<rparr>\<rparr>
             in bind_io (client_upsert [point]) (\<lambda>_. return_io (or_else originalId qdrantId)))
       (rethrow ''Failed to store vector: '')"

text \<open>
  \<^verbatim>\<open>records.map(...)\<close> of \<^verbatim>\<open>storeVectors\<close>: the callback throws at the first record
  of the wrong dimension. \<open>g k\<close> is the value of the \<open>k\<close>-th call of \<^verbatim>\<open>uuidv4()\<close>,
  \<open>clock j\<close> the time at the \<open>j\<close>-th record.
\<close>

fun map_records ::
  "(nat \<Rightarrow> string) \<Rightarrow> (nat \<Rightarrow> string) \<Rightarrow> nat \<Rightarrow> nat \<Rightarrow> VectorRecord list \<Rightarrow> thrown + point list" where
  "map_records g clock k j [] = Inr []"
| "map_records g clock k j (record # records) =
     (let fresh = (case vr_id record of None \<Rightarrow> True | Some i \<Rightarrow> i = []);
          ident = or_else (vr_id record) (g k)
      in if length (vr_embedding record) \<noteq> vectorSize
         then Inl (Error (''Embedding dimension mismatch for record '' @ ident @ ''. Expected ''
                          @ show_nat vectorSize @ '', got '' @ show_nat (length (vr_embedding record))))
         else (case map_records g clock (if fresh then Suc k else k) (Suc j) records of
                 Inl e \<Rightarrow> Inl e
               | Inr ps \<Rightarrow>
                   Inr (\<lparr>point_id = ident, vector = vr_embedding record,
                         payload = \<lparr>original_id = None, p_text = vr_text record,
                                    p_metadata = metadata_or_empty (vr_metadata record),
                                    created_at = clock j\<rparr>\<rparr> # ps)))"

definition storeVectors :: "(nat \<Rightarrow> string) \<Rightarrow> (nat \<Rightarrow> string) \<Rightarrow> VectorRecord list \<Rightarrow> string list io" where
  "storeVectors g clock records =
     try_catch
       (case map_records g clock 0 0 records of
          Inl e \<Rightarrow> throw_io e
        | Inr pts \<Rightarrow> bind_io (client_upsert pts) (\<lambda>_. return_io (map point_id pts)))
       (rethrow ''Failed to store vectors: '')"

definition searchSimilar :: "real list \<Rightarrow> int \<Rightarrow> real \<Rightarrow> QueryResult list io" where
  "searchSimilar queryVector limit threshold =
     try_catch
       (if length queryVector \<noteq> vectorSize
        then throw_io (Error (''Query vector dimension mismatch. Expected '' @ show_nat vectorSize
                               @ '', got '' @ show_nat (length queryVector)))
        else bind_io (client_search queryVector limit threshold) (\<lambda>searchResult.
          return_io (map (\<lambda>(result, score).
              \<lparr>qr_id = or_else (original_id (payload result)) (point_id result),
               qr_text = p_text (payload result),
               qr_score = score,
               qr_metadata = p_metadata (payload result)\<rparr>) searchResult)))
       (rethrow ''Failed to search similar vectors: '')"

definition getVector :: "string \<Rightarrow> string \<Rightarrow> VectorRecord option io" where
  "getVector u ident =
     try_catch
       (let qdrantId = convertToValidId u (Some ident) in
        bind_io (client_retrieve [qdrantId]) (\<lambda>result.
        bind_io (if result = [] \<and> qdrantId \<noteq> ident
                 then bind_io (client_scroll ident 1) (\<lambda>found.
                        return_io (if found \<noteq> [] then found else result))
                 else return_io result) (\<lambda>result.
        case result of
          [] \<Rightarrow> return_io None
        | point # _ \<Rightarrow>
            return_io (Some \<lparr>vr_id = Some (or_else (original_id (payload point)) (point_id point)),
                             vr_text = p_text (payload point),
                             vr_embedding = vector point,
                             vr_metadata = Some (p_metadata (payload point))\<rparr>))))
       (rethrow ''Failed to retrieve vector: '')"

definition deleteVector :: "string \<Rightarrow> string \<Rightarrow> bool io" where
  "deleteVector u ident =
     try_catch
       (let qdrantId = convertToValidId u (Some ident) in
        try_catch
          (bind_io (client_delete [qdrantId]) (\<lambda>_. return_io True))
          (\<lambda>deleteError.
             if qdrantId \<noteq> ident
             then bind_io (client_scroll ident 1) (\<lambda>found.
                    case found of
                      p # _ \<Rightarrow> bind_io (client_delete [point_id p]) (\<lambda>_. return_io True)
                    | [] \<Rightarrow> return_io False)
             else return_io False))
       (rethrow ''Failed to delete vector: '')"

section \<open>\<^verbatim>\<open>EmbeddingService\<close>\<close>

text \<open>
  The feature-extraction pipeline is an external collaborator: \<open>None\<close> while
  \<^verbatim>\<open>this.embedder\<close> is \<^verbatim>\<open>null\<close>, else a function from the text to what the call
  returns or throws. Its results, as \<^verbatim>\<open>generateEmbedding\<close> tells them apart: an array
  of arrays, a flat array, an object with a \<^verbatim>\<open>data\<close> buffer, anything else.
\<close>

datatype raw_output = Nested "real list list" | Flat "real list" | Tensor "real list" | Unexpected

type_synonym embedder = "(string \<Rightarrow> thrown + raw_output) option"

text \<open>White space of \<^verbatim>\<open>trim()\<close> among the code units below 256.\<close>

definition is_ws :: "char \<Rightarrow> bool" where
  "is_ws c = (of_char c \<in> set [9, 10, 11, 12, 13, 32, 160 :: nat])"

text \<open>\<^verbatim>\<open>!text || text.trim().length === 0\<close>\<close>

definition is_blank :: "string \<Rightarrow> bool" where
  "is_blank s = list_all is_ws s"

definition extract_embedding :: "raw_output \<Rightarrow> thrown + real list" where
  "extract_embedding result =
     (case result of
        Nested (x # xs) \<Rightarrow> Inr x
      | Flat (x # xs) \<Rightarrow> Inr (x # xs)
      | Tensor d \<Rightarrow> Inr d
      | _ \<Rightarrow> Inl (Error ''Unexpected embedding result format''))"

definition generateEmbedding :: "embedder \<Rightarrow> string \<Rightarrow> thrown + real list" where
  "generateEmbedding emb t =
     (case emb of
        None \<Rightarrow> Inl (Error ''Embedding model not initialized. Call initialize() first.'')
      | Some run \<Rightarrow>
          if is_blank t then Inl (Error ''Input text cannot be empty'')
          else (case (case run t of Inl e \<Rightarrow> Inl e | Inr result \<Rightarrow> extract_embedding result) of
                  Inl e \<Rightarrow> Inl (Error (''Failed to generate embedding: '' @ message_of e))
                | Inr embedding \<Rightarrow> Inr embedding))"

text \<open>The \<^verbatim>\<open>for\<close> loop of \<^verbatim>\<open>generateEmbeddings\<close>: the first failure ends it.\<close>

fun embed_each :: "embedder \<Rightarrow> string list \<Rightarrow> thrown + real list list" where
  "embed_each emb [] = Inr []"
| "embed_each emb (t # ts) =
     (case generateEmbedding emb t of
        Inl e \<Rightarrow> Inl e
      | Inr embedding \<Rightarrow>
          (case embed_each emb ts of Inl e \<Rightarrow> Inl e | Inr embeddings \<Rightarrow> Inr (embedding # embeddings)))"

definition generateEmbeddings :: "embedder \<Rightarrow> string list \<Rightarrow> thrown + real list list" where
  "generateEmbeddings emb texts =
     (if texts = [] then Inl (Error ''Input texts array cannot be empty'')
      else embed_each emb texts)"

section \<open>Query routes\<close>

record QueryRequest =
  rq_query :: string
  rq_limit :: "int option"
  rq_threshold :: "real option"

record QueryResponse =
  results :: "QueryResult list"
  query :: string
  success :: bool

text \<open>
  What a route answers: the framework's validation error when the request does not fit
  the route's schema (the handler is not run), else the handler's status and body.
\<close>

datatype reply = ValidationError | Reply nat QueryResponse

definition failed_response :: QueryResponse where
  "failed_response = \<lparr>results = [], query = [], success = False\<rparr>"

text \<open>
  \<^verbatim>\<open>t.Optional(t.Number({ minimum: 1, maximum: 100 }))\<close> and
  \<^verbatim>\<open>t.Optional(t.Number({ minimum: 0.0, maximum: 1.0 }))\<close>
\<close>

definition limit_in_schema :: "int option \<Rightarrow> bool" where
  "limit_in_schema l = (case l of None \<Rightarrow> True | Some n \<Rightarrow> 1 \<le> n \<and> n \<le> 100)"

definition threshold_in_schema :: "real option \<Rightarrow> bool" where
  "threshold_in_schema t = (case t of None \<Rightarrow> True | Some x \<Rightarrow> 0 \<le> x \<and> x \<le> 1)"

text \<open>The body schema of \<^verbatim>\<open>POST /query\<close>; \<^verbatim>\<open>query: t.String({ minLength: 1 })\<close>.\<close>

definition query_body_valid :: "QueryRequest \<Rightarrow> bool" where
  "query_body_valid body =
     (1 \<le> length (rq_query body) \<and> limit_in_schema (rq_limit body)
      \<and> threshold_in_schema (rq_threshold body))"

text \<open>\<^verbatim>\<open>const { limit = 10 } = body\<close> and \<^verbatim>\<open>const { threshold = 0.0 } = body\<close>\<close>

definition limit_or_default :: "int option \<Rightarrow> int" where
  "limit_or_default l = (case l of None \<Rightarrow> 10 | Some n \<Rightarrow> n)"

definition threshold_or_default :: "real option \<Rightarrow> real" where
  "threshold_or_default t = (case t of None \<Rightarrow> 0 | Some x \<Rightarrow> x)"

text \<open>The handler of \<^verbatim>\<open>POST /query\<close>.\<close>

definition query_handler :: "embedder \<Rightarrow> QueryRequest \<Rightarrow> store \<Rightarrow> reply \<times> store" where
  "query_handler emb body st =
     (let limit = limit_or_default (rq_limit body);
          threshold = threshold_or_default (rq_threshold body)
      in if is_blank (rq_query body) then (Reply 400 failed_response, st)
         else (case generateEmbedding emb (rq_query body) of
                 Inl e \<Rightarrow> (Reply 500 failed_response, st)
               | Inr queryEmbedding \<Rightarrow>
                   (case searchSimilar queryEmbedding (min limit 100) (max threshold 0) st of
                      (Inl e, st') \<Rightarrow> (Reply 500 failed_response, st')
                    | (Inr found, st') \<Rightarrow>
                        (Reply 200 \<lparr>results = found, query = rq_query body, success = True\<rparr>, st'))))"

definition post_query :: "embedder \<Rightarrow> QueryRequest \<Rightarrow> store \<Rightarrow> reply \<times> store" where
  "post_query emb body st =
     (if query_body_valid body then query_handler emb body st else (ValidationError, st))"

text \<open>
  The handler of \<^verbatim>\<open>POST /query/similar/:id\<close>; \<open>limit\<close> and \<open>threshold\<close> are the fields
  of the optional body.
\<close>

definition similar_handler ::
  "string \<Rightarrow> string \<Rightarrow> int option \<Rightarrow> real option \<Rightarrow> store \<Rightarrow> reply \<times> store" where
  "similar_handler u ident l t st =
     (let limit = limit_or_default l; threshold = threshold_or_default t in
      case getVector u ident st of
        (Inl e, st1) \<Rightarrow> (Reply 500 failed_response, st1)
      | (Inr None, st1) \<Rightarrow>
          (Reply 404 \<lparr>results = [], query = ''Vector with ID: '' @ ident, success = False\<rparr>, st1)
      | (Inr (Some record), st1) \<Rightarrow>
          (case searchSimilar (vr_embedding record) (min limit 100) (max threshold 0) st1 of
             (Inl e, st2) \<Rightarrow> (Reply 500 failed_response, st2)
           | (Inr found, st2) \<Rightarrow>
               (Reply 200 \<lparr>results = filter (\<lambda>result. qr_id result \<noteq> ident) found,
                           query = ''Similar to: '' @ substring 0 100 (vr_text record) @ ''...'',
                           success = True\<rparr>, st2)))"

definition post_similar ::
  "string \<Rightarrow> string \<Rightarrow> int option \<Rightarrow> real option \<Rightarrow> store \<Rightarrow> reply \<times> store" where
  "post_similar u ident l t st =
     (if limit_in_schema l \<and> threshold_in_schema t then similar_handler u ident l t st
      else (ValidationError, st))"

section \<open>Auxiliary notions and example inputs\<close>

definition is_lower_hex :: "char \<Rightarrow> bool" where
  "is_lower_hex c = (c \<in> set ''0123456789abcdef'')"

text \<open>A vector of 384 components and of norm 1.\<close>

definition unit_vector :: "real list" where
  "unit_vector = 1 # replicate 383 0"

definition empty_store :: store where
  "empty_store = \<lparr>points = [], faults = []\<rparr>"

definition example_embedder :: embedder where
  "example_embedder = Some (\<lambda>t. Inr (Tensor unit_vector))"

definition example_uuid :: "nat \<Rightarrow> string" where
  "example_uuid k = ''00000000-0000-4000-8000-00000000000'' @ [digit_char (k mod 10)]"

definition example_clock :: "nat \<Rightarrow> string" where
  "example_clock j = ''2025-01-01T00:00:00.000Z''"

definition doc_001 :: VectorRecord where
  "doc_001 = \<lparr>vr_id = Some ''doc_001'', vr_text = ''t'', vr_embedding = unit_vector,
              vr_metadata = Some [(''lang'', JStr ''en'')]\<rparr>"

definition short_record :: VectorRecord where
  "short_record = \<lparr>vr_id = Some ''doc_002'', vr_text = ''s'', vr_embedding = [1, 2],
                   vr_metadata = None\<rparr>"

text \<open>A stored point whose vector is opposite to \<open>unit_vector\<close>.\<close>

definition opposite_point :: point where
  "opposite_point =
     \<lparr>point_id = ''00000000-0000-4000-8000-000000000009'', vector = - 1 # replicate 383 0,
      payload = \<lparr>original_id = Some ''doc_009'', p_text = ''o'', p_metadata = [],
                 created_at = ''2025-01-01T00:00:00.000Z''\<rparr>\<rparr>"

text \<open>
  A store of 102 points: one opposite to \<open>unit_vector\<close> (score -1) and 101 equal to it
  (score 1); and the result \<^verbatim>\<open>searchSimilar\<close> reports for the \<open>k\<close>-th of these.
\<close>

definition example_point :: "nat \<Rightarrow> point" where
  "example_point k =
     \<lparr>point_id = ''00000000-0000-4000-8000-000000000'' @ show_nat (100 + k), vector = unit_vector,
      payload = \<lparr>original_id = Some (''doc_'' @ show_nat (100 + k)), p_text = ''t'', p_metadata = [],
                 created_at = ''2025-01-01T00:00:00.000Z''\<rparr>\<rparr>"

definition example_result :: "nat \<Rightarrow> QueryResult" where
  "example_result k =
     \<lparr>qr_id = ''doc_'' @ show_nat (100 + k), qr_text = ''t'', qr_score = 1, qr_metadata = []\<rparr>"

definition crowded_store :: store where
  "crowded_store = \<lparr>points = opposite_point # map example_point [0..<101], faults = []\<rparr>"

section \<open>Facts about the digest and the key format\<close>

lemma digit_char_all: "list_all (\<lambda>n. is_lower_hex (digit_char n)) [0..<16]"
  by code_simp

lemma digit_char_lower_hex: "n < 16 \<Longrightarrow> is_lower_hex (digit_char n)"
  using digit_char_all unfolding list_all_iff by simp

lemma nibble_bound: "unat ((w :: w32) AND 15) < 16"
proof -
  have "unat (w AND 15) \<le> unat (15 :: w32)"
    by (rule word_and_le1 [THEN word_le_nat_alt [THEN iffD1]])
  then show ?thesis by simp
qed

lemma hex32_length: "length (hex32 w) = 8"
  by (simp add: hex32_def)

lemma hex32_lower: "list_all is_lower_hex (hex32 w)"
  unfolding hex32_def by (simp add: digit_char_lower_hex nibble_bound)

lemma hex_digest_length: "length (hex_digest st) = 64"
proof -
  obtain a b c d e f g h where "st = (a, b, c, d, e, f, g, h)" by (metis surj_pair)
  then show ?thesis by (simp add: hex_digest_def hex32_length)
qed

lemma hex_digest_lower: "list_all is_lower_hex (hex_digest st)"
proof -
  obtain a b c d e f g h where "st = (a, b, c, d, e, f, g, h)" by (metis surj_pair)
  then show ?thesis by (simp add: hex_digest_def hex32_lower)
qed

lemma sha256_hex_length: "length (sha256_hex s) = 64"
  by (simp add: sha256_hex_def hex_digest_length)

lemma sha256_hex_lower: "list_all is_lower_hex (sha256_hex s)"
  by (simp add: sha256_hex_def hex_digest_lower)

lemma lower_hex_is_hex: "is_lower_hex c \<Longrightarrow> is_hex c"
  by (auto simp: is_lower_hex_def is_hex_def)

lemma list_all_lower_hex: "list_all is_lower_hex xs \<Longrightarrow> list_all is_hex xs"
  by (induction xs) (simp_all add: lower_hex_is_hex)

lemma variant_char_all:
  "list_all (\<lambda>c. variant_char [c] \<in> set [''8'', ''9'', ''a'', ''b'']) ''0123456789abcdef''"
  by code_simp

lemma variant_char_ok:
  "is_lower_hex c \<Longrightarrow> variant_char [c] \<in> set [''8'', ''9'', ''a'', ''b'']"
  using variant_char_all unfolding is_lower_hex_def list_all_iff by blast

text \<open>Five groups of hexadecimal digits of widths 8, 4, 4, 4 and 12 match the pattern.\<close>

lemma uuid_shape:
  assumes "length a = 8" "length b = 4" "length c = 3" "length d = 3" "length e = 12"
    and "list_all is_hex a" "list_all is_hex b" "list_all is_hex c" "list_all is_hex d"
        "list_all is_hex e"
    and "x \<in> set ''12345''" "y \<in> set ''89abAB''"
  shows "uuidRegex_test (a @ ''-'' @ b @ ''-'' @ (x # c) @ ''-'' @ (y # d) @ ''-'' @ e)"
  unfolding uuidRegex_test_def using assms by (simp add: nth_append)

lemma list_all_take_drop: "list_all P xs \<Longrightarrow> list_all P (take n (drop m xs))"
  by (auto simp: list_all_iff dest: in_set_takeD in_set_dropD)

lemma format_uuid_matches:
  assumes len: "length h = 64" and hex: "list_all is_lower_hex h"
  shows "uuidRegex_test (format_uuid h)"
proof -
  have h16: "substring 16 17 h = [h ! 16]"
    using len by (simp add: substring_def take_Suc_conv_app_nth)
  have "is_lower_hex (h ! 16)" using hex len by (simp add: list_all_length)
  then have "variant_char [h ! 16] \<in> set [''8'', ''9'', ''a'', ''b'']" by (rule variant_char_ok)
  then obtain y where y: "variant_char (substring 16 17 h) = [y]" "y \<in> set ''89abAB''"
    unfolding h16 by auto
  have allhex: "\<And>i j. list_all is_hex (substring i j h)"
    unfolding substring_def using hex by (intro list_all_take_drop list_all_lower_hex)
  have "uuidRegex_test (substring 0 8 h @ ''-'' @ substring 8 12 h @ ''-'' @
     (CHR ''4'' # substring 13 16 h) @ ''-'' @ (y # substring 17 20 h) @ ''-'' @ substring 20 32 h)"
  proof (rule uuid_shape)
    show "y \<in> set ''89abAB''" by (rule y(2))
  qed (simp_all add: allhex, simp_all add: substring_def len)
  then show ?thesis unfolding format_uuid_def y by simp
qed

lemma derived_key_matches: "uuidRegex_test (format_uuid (sha256_hex s))"
  by (rule format_uuid_matches [OF sha256_hex_length sha256_hex_lower])

lemma uuidRegex_test_length: "uuidRegex_test s \<Longrightarrow> length s = 36"
  by (simp add: uuidRegex_test_def)

lemma uuidRegex_test_nonempty: "uuidRegex_test s \<Longrightarrow> s \<noteq> []"
  by (auto dest: uuidRegex_test_length)

lemma convertToValidId_native: "uuidRegex_test c \<Longrightarrow> convertToValidId u (Some c) = c"
  by (auto simp: convertToValidId_def dest: uuidRegex_test_nonempty)

lemma convertToValidId_nonempty:
  "c \<noteq> [] \<Longrightarrow>
   convertToValidId u (Some c) = (if uuidRegex_test c then c else format_uuid (sha256_hex c))"
  by (simp add: convertToValidId_def)

lemma convertToValidId_matches:
  "uuidRegex_test u \<or> (\<exists>c. cid = Some c \<and> c \<noteq> []) \<Longrightarrow> uuidRegex_test (convertToValidId u cid)"
  by (auto simp: convertToValidId_def derived_key_matches split: option.splits)

lemma example_uuid_native: "uuidRegex_test (example_uuid 0)"
  by (simp add: example_uuid_def uuidRegex_test_def is_hex_def digit_char_def)

text \<open>
  The digest of \<^verbatim>\<open>doc_001\<close> is
  \<^verbatim>\<open>899c9194ab2e128b0920fb6c3b0edf725716f7f4a843619cbc7d0f9908f1d590\<close>; its key follows.
\<close>

lemma doc_001_digest:
  "format_uuid (sha256_hex ''doc_001'') = ''899c9194-ab2e-428b-8920-fb6c3b0edf72''"
  by code_simp

lemma doc_001_key: "convertToValidId u (Some ''doc_001'') = ''899c9194-ab2e-428b-8920-fb6c3b0edf72''"
  by (simp add: convertToValidId_def uuidRegex_test_def doc_001_digest)

section \<open>Facts about the services\<close>

lemma show_nat_384: "show_nat 384 = ''384''"
  by code_simp

lemma show_nat_2: "show_nat 2 = ''2''"
  by code_simp

lemmas io_defs = bind_io_def return_io_def throw_io_def try_catch_def rethrow_def message_of_def

lemma unit_vector_length: "length unit_vector = 384"
  by (simp add: unit_vector_def)

lemma unit_vector_cosine: "cosine unit_vector unit_vector = 1"
  by (simp add: unit_vector_def cosine_def dot_def sum_list_replicate)

lemma filter_replaced:
  "list_ex (\<lambda>q. point_id q = point_id p) ps \<Longrightarrow>
   \<exists>xs. filter (\<lambda>q. point_id q = point_id p)
          (map (\<lambda>q. if point_id q = point_id p then p else q) ps) = p # xs"
  by (induction ps) auto

text \<open>After an upsert of \<open>p\<close>, retrieving its key returns \<open>p\<close> first.\<close>

lemma retrieve_after_upsert:
  "\<exists>xs. filter (\<lambda>q. point_id q \<in> set [point_id p]) (upsert_point p ps) = p # xs"
proof (cases "list_ex (\<lambda>q. point_id q = point_id p) ps")
  case True
  from filter_replaced [OF this] show ?thesis using True by (simp add: upsert_point_def)
next
  case False
  then have "filter (\<lambda>q. point_id q = point_id p) ps = []"
    by (auto simp: list_ex_iff filter_empty_conv)
  then show ?thesis using False by (simp add: upsert_point_def)
qed

lemma or_else_key: "or_else cid (convertToValidId u cid) = or_else cid u"
  by (auto simp: or_else_def convertToValidId_def split: option.splits)

lemma key_of_returned_id:
  "uuidRegex_test u \<Longrightarrow> convertToValidId u' (Some (or_else cid u)) = convertToValidId u cid"
  by (auto simp: or_else_def convertToValidId_native convertToValidId_nonempty
      split: option.splits) (simp_all add: convertToValidId_def)

text \<open>With no failure of the store, \<^verbatim>\<open>storeVector\<close> upserts one point and returns the id.\<close>

lemma storeVector_ok:
  "length (vr_embedding r) = 384 \<Longrightarrow> faults st = [] \<Longrightarrow>
   storeVector u now r st =
     (Inr (or_else (vr_id r) u),
      st\<lparr>points := upsert_point
           \<lparr>point_id = convertToValidId u (vr_id r), vector = vr_embedding r,
            payload = \<lparr>original_id = vr_id r, p_text = vr_text r,
                       p_metadata = metadata_or_empty (vr_metadata r), created_at = now\<rparr>\<rparr>
           (points st)\<rparr>)"
  by (simp add: storeVector_def vectorSize_def client_upsert_def client_call_def io_defs Let_def
      or_else_key)

lemma getVector_direct_hit:
  assumes "faults st = []"
    and "filter (\<lambda>q. point_id q \<in> set [convertToValidId u (Some ident)]) (points st) = p # xs"
  shows "getVector u ident st =
     (Inr (Some \<lparr>vr_id = Some (or_else (original_id (payload p)) (point_id p)),
                 vr_text = p_text (payload p), vr_embedding = vector p,
                 vr_metadata = Some (p_metadata (payload p))\<rparr>), st)"
  using assms
  by (simp add: getVector_def client_retrieve_def client_call_def io_defs Let_def)

lemma map_records_mismatch:
  "list_ex (\<lambda>r. length (vr_embedding r) \<noteq> 384) records \<Longrightarrow>
   \<exists>ident n. n \<noteq> 384 \<and> map_records g clock k j records =
      Inl (Error (''Embedding dimension mismatch for record '' @ ident
                  @ ''. Expected 384, got '' @ show_nat n))"
proof (induction records arbitrary: k j)
  case Nil
  then show ?case by simp
next
  case (Cons r rs)
  let ?k = "if (case vr_id r of None \<Rightarrow> True | Some i \<Rightarrow> i = []) then Suc k else k"
  show ?case
  proof (cases "length (vr_embedding r) = 384")
    case False
    then show ?thesis by (auto simp: vectorSize_def show_nat_384 Let_def)
  next
    case True
    then have "list_ex (\<lambda>r. length (vr_embedding r) \<noteq> 384) rs" using Cons.prems by simp
    from Cons.IH [OF this, of ?k "Suc j"]
    obtain ident n where "n \<noteq> 384"
      and "map_records g clock ?k (Suc j) rs =
        Inl (Error (''Embedding dimension mismatch for record '' @ ident
                    @ ''. Expected 384, got '' @ show_nat n))"
      by blast
    then show ?thesis using True
      by (intro exI [of _ ident] exI [of _ n]) (simp add: vectorSize_def Let_def)
  qed
qed

text \<open>
  \<^verbatim>\<open>storeVector\<close> writes the caller's id into the payload of its point; the points of
  \<^verbatim>\<open>storeVectors\<close> have none.
\<close>

lemma storeVector_payload_original_id:
  "length (vr_embedding r) = 384 \<Longrightarrow> faults st = [] \<Longrightarrow>
   points (snd (storeVector u now r st)) =
     upsert_point \<lparr>point_id = convertToValidId u (vr_id r), vector = vr_embedding r,
                   payload = \<lparr>original_id = vr_id r, p_text = vr_text r,
                              p_metadata = metadata_or_empty (vr_metadata r), created_at = now\<rparr>\<rparr>
       (points st)"
  by (simp add: storeVector_ok)

lemma map_records_no_original_id:
  "map_records g clock k j records = Inr ps \<Longrightarrow> list_all (\<lambda>p. original_id (payload p) = None) ps"
proof (induction records arbitrary: k j ps)
  case Nil
  then show ?case by simp
next
  case (Cons r rs)
  then show ?case
    by (auto simp: Let_def split: if_splits sum.splits)
qed

text \<open>
  The results of \<^verbatim>\<open>POST /query/similar/:id\<close> never carry the id of the path, whatever the
  store holds.
\<close>

lemma similar_handler_excludes_path_id:
  "fst (similar_handler u ident l t st) = Reply n response \<Longrightarrow>
   list_all (\<lambda>result. qr_id result \<noteq> ident) (results response)"
  by (auto simp: similar_handler_def failed_response_def Let_def list_all_iff
      split: prod.splits sum.splits option.splits)

text \<open>\<^verbatim>\<open>searchSimilar\<close> itself hands \<open>limit\<close> and \<open>threshold\<close> to the store as they are.\<close>

lemma searchSimilar_passes_through:
  "length v = 384 \<Longrightarrow> faults st = [] \<Longrightarrow>
   fst (searchSimilar v limit threshold st) =
     Inr (map (\<lambda>(result, score).
                \<lparr>qr_id = or_else (original_id (payload result)) (point_id result),
                 qr_text = p_text (payload result), qr_score = score,
                 qr_metadata = p_metadata (payload result)\<rparr>)
          (take (nat limit)
             (sort_key (\<lambda>(p, s). - s)
                (filter (\<lambda>(p, s). threshold \<le> s)
                   (map (\<lambda>p. (p, cosine v (vector p))) (points st))))))"
  by (simp add: searchSimilar_def vectorSize_def client_search_def client_call_def io_defs)

text \<open>
  An example: with a point of score -1 in the store, \<^verbatim>\<open>searchSimilar\<close> with threshold -1
  finds it and with threshold 0 does not.
\<close>

lemma opposite_point_cosine: "cosine unit_vector (vector opposite_point) = - 1"
  by (simp add: unit_vector_def opposite_point_def cosine_def dot_def sum_list_replicate)

lemma searchSimilar_unclamped_example:
  "fst (searchSimilar unit_vector 500 (- 1) \<lparr>points = [opposite_point], faults = []\<rparr>) =
     Inr [\<lparr>qr_id = ''doc_009'', qr_text = ''o'', qr_score = - 1, qr_metadata = []\<rparr>]
   \<and> fst (searchSimilar unit_vector 100 0 \<lparr>points = [opposite_point], faults = []\<rparr>) = Inr []"
  by (simp add: searchSimilar_passes_through unit_vector_length opposite_point_cosine)
    (simp add: opposite_point_def or_else_def)

text \<open>The two requests of the clamping example, evaluated.\<close>

lemma post_query_rejects_out_of_range:
  "post_query example_embedder \<lparr>rq_query = ''q'', rq_limit = Some 500, rq_threshold = Some (- 1)\<rparr>
       empty_store = (ValidationError, empty_store)"
  by (simp add: post_query_def query_body_valid_def limit_in_schema_def)

lemma post_query_answers_in_range:
  "post_query example_embedder \<lparr>rq_query = ''q'', rq_limit = Some 100, rq_threshold = Some 0\<rparr>
       empty_store = (Reply 200 \<lparr>results = [], query = ''q'', success = True\<rparr>, empty_store)"
  by (simp add: post_query_def query_body_valid_def limit_in_schema_def threshold_in_schema_def
      query_handler_def limit_or_default_def threshold_or_default_def is_blank_def is_ws_def
      generateEmbedding_def example_embedder_def extract_embedding_def
      searchSimilar_def vectorSize_def unit_vector_length client_search_def client_call_def
      io_defs empty_store_def)

text \<open>While no call of the store fails, \<^verbatim>\<open>deleteVector\<close> returns true for every id.\<close>

lemma deleteVector_true_without_failure:
  "faults st = [] \<Longrightarrow> fst (deleteVector u ident st) = Inr True"
  by (simp add: deleteVector_def client_delete_def client_call_def io_defs Let_def)

text \<open>
  The crowded store: a search with limit 100 and threshold 0 reports the first 100 of the
  points of score 1, a search with limit 500 and threshold -1 all 102 points.
\<close>

lemma show_nat_nonempty: "show_nat n \<noteq> []"
  by (subst show_nat.simps) simp

lemma example_embedding: "generateEmbedding example_embedder ''q'' = Inr unit_vector"
  by (simp add: generateEmbedding_def example_embedder_def extract_embedding_def is_blank_def
      is_ws_def)

lemma scores_crowded:
  "filter (\<lambda>(p, s). 0 \<le> s)
     (map (\<lambda>p. (p, cosine unit_vector (vector p))) (points crowded_store))
   = map (\<lambda>k. (example_point k, 1)) [0..<101]"
proof -
  have "map (\<lambda>p. (p, cosine unit_vector (vector p))) (map example_point [0..<101])
      = map (\<lambda>k. (example_point k, 1)) [0..<101]"
    by (simp add: example_point_def unit_vector_cosine)
  moreover have "filter (\<lambda>(p, s). (0::real) \<le> s) (map (\<lambda>k. (example_point k, 1)) [0..<101])
      = map (\<lambda>k. (example_point k, 1)) [0..<101]"
    by (simp add: filter_map o_def)
  ultimately show ?thesis
    by (simp add: crowded_store_def opposite_point_cosine del: upt_Suc)
qed

lemma ranked_crowded:
  "sort_key (\<lambda>(p, s). - s) (map (\<lambda>k. (example_point k, 1 :: real)) [0..<101])
   = map (\<lambda>k. (example_point k, 1)) [0..<101]"
  by (rule sort_key_id_if_sorted) (simp add: o_def map_replicate_const del: upt_Suc)

lemma searchSimilar_crowded:
  "searchSimilar unit_vector 100 0 crowded_store = (Inr (map example_result [0..<100]), crowded_store)"
proof -
  have f: "faults crowded_store = []" by (simp add: crowded_store_def)
  have t: "take 100 (map (\<lambda>k. (example_point k, 1 :: real)) [0..<101])
      = map (\<lambda>k. (example_point k, 1)) [0..<100]"
    by (simp add: take_map del: upt_Suc)
  have m: "map (\<lambda>(result, score).
              \<lparr>qr_id = or_else (original_id (payload result)) (point_id result),
               qr_text = p_text (payload result), qr_score = score,
               qr_metadata = p_metadata (payload result)\<rparr>)
           (map (\<lambda>k. (example_point k, 1 :: real)) [0..<100])
      = map example_result [0..<100]"
    by (simp add: o_def example_point_def example_result_def or_else_def del: upt_Suc)
  have "fst (searchSimilar unit_vector 100 0 crowded_store) = Inr (map example_result [0..<100])"
    unfolding searchSimilar_passes_through [OF unit_vector_length f] scores_crowded ranked_crowded
    using t m by (simp del: upt_Suc)
  moreover have "snd (searchSimilar unit_vector 100 0 crowded_store) = crowded_store"
    by (simp add: searchSimilar_def vectorSize_def unit_vector_length client_search_def
        client_call_def io_defs f)
  ultimately show ?thesis by (simp add: prod_eq_iff)
qed

lemma searchSimilar_crowded_unclamped:
  "\<exists>found. fst (searchSimilar unit_vector 500 (- 1) crowded_store) = Inr found \<and> length found = 102"
proof -
  have f: "faults crowded_store = []" by (simp add: crowded_store_def)
  have "filter (\<lambda>(p, s). - 1 \<le> s)
     (map (\<lambda>p. (p, cosine unit_vector (vector p))) (points crowded_store))
     = map (\<lambda>p. (p, cosine unit_vector (vector p))) (points crowded_store)"
    by (rule filter_True)
      (auto simp: crowded_store_def opposite_point_cosine example_point_def unit_vector_cosine
        simp del: upt_Suc)
  then show ?thesis
    unfolding searchSimilar_passes_through [OF unit_vector_length f]
    by (simp add: crowded_store_def del: upt_Suc)
qed

section \<open>The claims\<close>

text \<open>
  C1. \<^verbatim>\<open>storeVector\<close> refuses every record whose embedding does not have 384 components:
  it throws an error whose message names the expected and the actual length, and it does
  so before any call of the client, so that the store is left as it was (no point is
  written). A call that returns an id was given an embedding of 384 components.
\<close>

theorem storeVector_dimension_mismatch:
  "(length (vr_embedding r) \<noteq> 384 \<longrightarrow>
      storeVector u now r st =
        (Inl (Error (''Failed to store vector: Embedding dimension mismatch. Expected 384, got ''
                     @ show_nat (length (vr_embedding r)))), st))
   \<and> (\<forall>k. fst (storeVector u now r st) = Inr k \<longrightarrow> length (vr_embedding r) = 384)"
  by (simp add: storeVector_def vectorSize_def io_defs show_nat_384 Let_def)

theorem storeVector_dimension_mismatch_witness:
  "length (vr_embedding short_record) \<noteq> 384
   \<and> storeVector (example_uuid 0) (example_clock 0) short_record empty_store =
       (Inl (Error ''Failed to store vector: Embedding dimension mismatch. Expected 384, got 2''),
        empty_store)
   \<and> fst (storeVector (example_uuid 0) (example_clock 0) doc_001 empty_store) = Inr ''doc_001''
   \<and> length (vr_embedding doc_001) = 384"
proof -
  have len: "length (vr_embedding short_record) = 2" by (simp add: short_record_def)
  have ok: "fst (storeVector (example_uuid 0) (example_clock 0) doc_001 empty_store) = Inr ''doc_001''"
    by (simp add: storeVector_ok doc_001_def unit_vector_length empty_store_def or_else_def)
  show ?thesis
    using storeVector_dimension_mismatch
            [where r = short_record and u = "example_uuid 0" and now = "example_clock 0"
               and st = empty_store]
          storeVector_dimension_mismatch
            [where r = doc_001 and u = "example_uuid 0" and now = "example_clock 0"
               and st = empty_store]
          ok
    by (simp add: len show_nat_2)
qed

text \<open>
  C2, as stated: for every string id, two calls of \<^verbatim>\<open>convertToValidId\<close> yield the same
  key. The empty string is falsy, so \<^verbatim>\<open>!customId\<close> sends it where an absent id goes:
  each call returns a fresh \<^verbatim>\<open>uuidv4()\<close>, and two calls differ.
\<close>

theorem convertToValidId_empty_id_counterexample:
  "convertToValidId ''11111111-1111-4111-8111-111111111111'' (Some '''')
   \<noteq> convertToValidId ''22222222-2222-4222-8222-222222222222'' (Some '''')"
  by (simp add: convertToValidId_def)

text \<open>
  C2, amended. For every non-empty string id the key does not depend on the
  environment (whatever \<^verbatim>\<open>uuidv4()\<close> would return): the same id always yields the same
  key. For every id that matches the native UUID format the key is the id itself.
\<close>

theorem convertToValidId_deterministic:
  "(ident \<noteq> [] \<longrightarrow> convertToValidId u1 (Some ident) = convertToValidId u2 (Some ident))
   \<and> (uuidRegex_test ident \<longrightarrow> convertToValidId u (Some ident) = ident)"
  by (simp add: convertToValidId_nonempty convertToValidId_native)

theorem convertToValidId_deterministic_witness:
  "''doc_001'' \<noteq> []
   \<and> convertToValidId (example_uuid 0) (Some ''doc_001'') = convertToValidId (example_uuid 1) (Some ''doc_001'')
   \<and> uuidRegex_test ''123e4567-e89b-42d3-a456-426614174000''
   \<and> convertToValidId (example_uuid 0) (Some ''123e4567-e89b-42d3-a456-426614174000'')
       = ''123e4567-e89b-42d3-a456-426614174000''"
proof -
  have m: "uuidRegex_test ''123e4567-e89b-42d3-a456-426614174000''"
    by (simp add: uuidRegex_test_def is_hex_def)
  show ?thesis
    using convertToValidId_deterministic
            [where ident = "''doc_001''" and ?u1.0 = "example_uuid 0" and ?u2.0 = "example_uuid 1"]
          convertToValidId_deterministic
            [where ident = "''123e4567-e89b-42d3-a456-426614174000''" and u = "example_uuid 0"]
          m
    by simp
qed

text \<open>
  C3. Round trip. For every record with an embedding of 384 components, when no call of
  the store fails and \<^verbatim>\<open>uuidv4()\<close> returns a key of the native format,
  \<^verbatim>\<open>storeVector\<close> returns the record's id if one was supplied (a non-empty string) and
  the generated key otherwise, and \<^verbatim>\<open>getVector\<close> of the returned value, on the store as
  \<^verbatim>\<open>storeVector\<close> left it, finds the record: the same id, text and embedding, and the
  metadata (the empty object where the record had none).
\<close>

theorem store_then_get_round_trip:
  assumes "length (vr_embedding r) = 384" and "uuidRegex_test u" and "faults st = []"
  shows "fst (storeVector u now r st) = Inr (or_else (vr_id r) u)
     \<and> fst (getVector u' (or_else (vr_id r) u) (snd (storeVector u now r st))) =
         Inr (Some \<lparr>vr_id = Some (or_else (vr_id r) u), vr_text = vr_text r,
                    vr_embedding = vr_embedding r,
                    vr_metadata = Some (metadata_or_empty (vr_metadata r))\<rparr>)"
proof -
  let ?p = "\<lparr>point_id = convertToValidId u (vr_id r), vector = vr_embedding r,
            payload = \<lparr>original_id = vr_id r, p_text = vr_text r,
                       p_metadata = metadata_or_empty (vr_metadata r), created_at = now\<rparr>\<rparr>"
  let ?st = "st\<lparr>points := upsert_point ?p (points st)\<rparr>"
  have s: "storeVector u now r st = (Inr (or_else (vr_id r) u), ?st)"
    using assms by (simp add: storeVector_ok)
  have k: "convertToValidId u' (Some (or_else (vr_id r) u)) = point_id ?p"
    using assms(2) by (simp add: key_of_returned_id)
  obtain xs where
    "filter (\<lambda>q. point_id q \<in> set [point_id ?p]) (upsert_point ?p (points st)) = ?p # xs"
    using retrieve_after_upsert by blast
  then have "filter (\<lambda>q. point_id q \<in> set [convertToValidId u' (Some (or_else (vr_id r) u))])
      (points ?st) = ?p # xs"
    unfolding k by simp
  from getVector_direct_hit [OF _ this] assms(3)
  have "getVector u' (or_else (vr_id r) u) ?st =
     (Inr (Some \<lparr>vr_id = Some (or_else (vr_id r) (convertToValidId u (vr_id r))),
                 vr_text = vr_text r, vr_embedding = vr_embedding r,
                 vr_metadata = Some (metadata_or_empty (vr_metadata r))\<rparr>), ?st)"
    by simp
  then show ?thesis unfolding s by (simp add: or_else_key)
qed

theorem store_then_get_round_trip_witness:
  "length (vr_embedding doc_001) = 384 \<and> uuidRegex_test (example_uuid 0) \<and> faults empty_store = []
   \<and> fst (storeVector (example_uuid 0) (example_clock 0) doc_001 empty_store) = Inr ''doc_001''
   \<and> fst (getVector (example_uuid 1) ''doc_001''
            (snd (storeVector (example_uuid 0) (example_clock 0) doc_001 empty_store))) =
       Inr (Some \<lparr>vr_id = Some ''doc_001'', vr_text = ''t'', vr_embedding = unit_vector,
                  vr_metadata = Some [(''lang'', JStr ''en'')]\<rparr>)"
proof -
  have h1: "length (vr_embedding doc_001) = 384" by (simp add: doc_001_def unit_vector_length)
  have h3: "faults empty_store = []" by (simp add: empty_store_def)
  have v: "or_else (vr_id doc_001) (example_uuid 0) = ''doc_001''"
    "vr_text doc_001 = ''t''" "vr_embedding doc_001 = unit_vector"
    "metadata_or_empty (vr_metadata doc_001) = [(''lang'', JStr ''en'')]"
    by (simp_all add: doc_001_def or_else_def metadata_or_empty_def)
  show ?thesis
    using store_then_get_round_trip
            [OF h1 example_uuid_native h3, where now = "example_clock 0" and u' = "example_uuid 1"]
          h1 h3 example_uuid_native
    by (simp add: v)
qed

text \<open>
  C4. Self-exclusion: the record resolved for the id of \<^verbatim>\<open>POST /query/similar/:id\<close> is
  never among the results, whether it was addressed by its original id or by its storage
  key. The handler filters on \<^verbatim>\<open>result.id !== id\<close>, where \<^verbatim>\<open>result.id\<close> is the payload's
  \<^verbatim>\<open>original_id\<close>: with \<^verbatim>\<open>doc_001\<close> stored and the route called on its storage key
  (and no body), the record is returned as similar to itself.
\<close>

theorem similar_by_storage_key_includes_self:
  "fst (post_similar u' ''899c9194-ab2e-428b-8920-fb6c3b0edf72'' None None
      (snd (storeVector u now doc_001 empty_store)))
   = Reply 200
       \<lparr>results = [\<lparr>qr_id = ''doc_001'', qr_text = ''t'', qr_score = 1,
                    qr_metadata = [(''lang'', JStr ''en'')]\<rparr>],
        query = ''Similar to: t...'', success = True\<rparr>"
proof -
  let ?K = "''899c9194-ab2e-428b-8920-fb6c3b0edf72''"
  let ?p = "\<lparr>point_id = ?K, vector = unit_vector,
            payload = \<lparr>original_id = Some ''doc_001'', p_text = ''t'',
                       p_metadata = [(''lang'', JStr ''en'')], created_at = now\<rparr>\<rparr>"
  let ?st = "\<lparr>points = [?p], faults = []\<rparr>"
  have m: "uuidRegex_test ?K"
    using convertToValidId_matches [of u "Some ''doc_001''"] by (simp add: doc_001_key)
  have s: "snd (storeVector u now doc_001 empty_store) = ?st"
    by (simp add: storeVector_ok doc_001_def empty_store_def unit_vector_length upsert_point_def
        metadata_or_empty_def doc_001_key)
  have g: "getVector u' ?K ?st =
     (Inr (Some \<lparr>vr_id = Some ''doc_001'', vr_text = ''t'', vr_embedding = unit_vector,
                 vr_metadata = Some [(''lang'', JStr ''en'')]\<rparr>), ?st)"
    using getVector_direct_hit [of ?st u' ?K ?p "[]"] m
    by (simp add: convertToValidId_native or_else_def)
  have q: "searchSimilar unit_vector 10 0 ?st =
     (Inr [\<lparr>qr_id = ''doc_001'', qr_text = ''t'', qr_score = 1,
            qr_metadata = [(''lang'', JStr ''en'')]\<rparr>], ?st)"
    by (simp add: searchSimilar_def vectorSize_def unit_vector_length client_search_def
        client_call_def io_defs unit_vector_cosine or_else_def)
  show ?thesis unfolding s
    by (simp add: post_similar_def limit_in_schema_def threshold_in_schema_def
        similar_handler_def limit_or_default_def threshold_or_default_def g q substring_def)
qed

text \<open>
  C5. \<^verbatim>\<open>deleteVector\<close> returns true exactly when a record was found and removed, and
  false for an id that no record has. The delete call of the store does not fail when no
  point has the key, and \<^verbatim>\<open>deleteVector\<close> returns true whenever that call returns: on
  the empty store it answers true for an id that was never stored.
\<close>

theorem deleteVector_missing_returns_true:
  "deleteVector u ''doc_404'' empty_store = (Inr True, empty_store)"
  by (simp add: deleteVector_def client_delete_def client_call_def io_defs Let_def empty_store_def)

text \<open>
  C6, as stated: a search with \<open>limit = 500\<close> and \<open>threshold = -1\<close> is silently corrected
  and behaves as the search with \<open>limit = 100\<close> and \<open>threshold = 0\<close>. The clamping is in the
  handler of \<^verbatim>\<open>POST /query\<close>, behind the route's body schema, which admits a limit from 1
  to 100 and a threshold from 0 to 1 only: the first request is refused with a
  validation error, the second is answered.
\<close>

theorem post_query_out_of_range_counterexample:
  "post_query example_embedder \<lparr>rq_query = ''q'', rq_limit = Some 500, rq_threshold = Some (-1)\<rparr>
       empty_store
   \<noteq> post_query example_embedder \<lparr>rq_query = ''q'', rq_limit = Some 100, rq_threshold = Some 0\<rparr>
       empty_store"
  by (simp add: post_query_def query_body_valid_def limit_in_schema_def threshold_in_schema_def
      query_handler_def Let_def is_blank_def is_ws_def split: sum.splits prod.splits)

text \<open>
  C6, amended. The handler of \<^verbatim>\<open>POST /query\<close> answers 400 to a blank query and 500 when
  the embedding of the query fails; for any other query, of embedding \<open>v\<close>, it answers with
  what \<^verbatim>\<open>searchSimilar(v, Math.min(limit, 100), Math.max(threshold, 0.0))\<close> gives (200 and
  its results, 500 if it throws), \<open>limit\<close> being 10 and \<open>threshold\<close> 0 where the body has
  none. So the handler run on limit \<open>n\<close> and threshold \<open>x\<close> behaves as run on \<open>min n 100\<close>
  and \<open>max x 0\<close>, with 500 and -1 as with 100 and 0. The route runs the handler only on a
  body with a non-empty query, a limit from 1 to 100 and a threshold from 0 to 1 (where
  given); any other request is refused with a validation error, before the handler runs.
\<close>

theorem query_handler_clamps:
  "(is_blank q \<longrightarrow>
      query_handler emb \<lparr>rq_query = q, rq_limit = l, rq_threshold = t\<rparr> st
        = (Reply 400 failed_response, st))
   \<and> (\<not> is_blank q \<and> generateEmbedding emb q = Inr v \<longrightarrow>
      query_handler emb \<lparr>rq_query = q, rq_limit = l, rq_threshold = t\<rparr> st =
        (case searchSimilar v (min (case l of None \<Rightarrow> 10 | Some n \<Rightarrow> n) 100)
                (max (case t of None \<Rightarrow> 0 | Some x \<Rightarrow> x) 0) st of
           (Inl e, st') \<Rightarrow> (Reply 500 failed_response, st')
         | (Inr found, st') \<Rightarrow> (Reply 200 \<lparr>results = found, query = q, success = True\<rparr>, st')))
   \<and> (\<not> is_blank q \<and> generateEmbedding emb q = Inl e \<longrightarrow>
      query_handler emb \<lparr>rq_query = q, rq_limit = l, rq_threshold = t\<rparr> st
        = (Reply 500 failed_response, st))
   \<and> query_handler emb \<lparr>rq_query = q, rq_limit = Some n, rq_threshold = Some x\<rparr> st
       = query_handler emb \<lparr>rq_query = q, rq_limit = Some (min n 100), rq_threshold = Some (max x 0)\<rparr> st
   \<and> post_query emb \<lparr>rq_query = q, rq_limit = l, rq_threshold = t\<rparr> st =
       (if q \<noteq> [] \<and> (case l of None \<Rightarrow> True | Some n \<Rightarrow> 1 \<le> n \<and> n \<le> 100)
           \<and> (case t of None \<Rightarrow> True | Some x \<Rightarrow> 0 \<le> x \<and> x \<le> 1)
        then query_handler emb \<lparr>rq_query = q, rq_limit = l, rq_threshold = t\<rparr> st
        else (ValidationError, st))"
proof (intro conjI impI)
  show "is_blank q \<Longrightarrow>
      query_handler emb \<lparr>rq_query = q, rq_limit = l, rq_threshold = t\<rparr> st
        = (Reply 400 failed_response, st)"
    by (simp add: query_handler_def)
next
  assume "\<not> is_blank q \<and> generateEmbedding emb q = Inr v"
  then show "query_handler emb \<lparr>rq_query = q, rq_limit = l, rq_threshold = t\<rparr> st =
        (case searchSimilar v (min (case l of None \<Rightarrow> 10 | Some n \<Rightarrow> n) 100)
                (max (case t of None \<Rightarrow> 0 | Some x \<Rightarrow> x) 0) st of
           (Inl e, st') \<Rightarrow> (Reply 500 failed_response, st')
         | (Inr found, st') \<Rightarrow> (Reply 200 \<lparr>results = found, query = q, success = True\<rparr>, st'))"
    by (simp add: query_handler_def limit_or_default_def threshold_or_default_def Let_def
        split: sum.splits prod.splits)
next
  assume "\<not> is_blank q \<and> generateEmbedding emb q = Inl e"
  then show "query_handler emb \<lparr>rq_query = q, rq_limit = l, rq_threshold = t\<rparr> st
        = (Reply 500 failed_response, st)"
    by (simp add: query_handler_def Let_def)
next
  show "query_handler emb \<lparr>rq_query = q, rq_limit = Some n, rq_threshold = Some x\<rparr> st
       = query_handler emb \<lparr>rq_query = q, rq_limit = Some (min n 100), rq_threshold = Some (max x 0)\<rparr> st"
    by (auto simp: query_handler_def limit_or_default_def threshold_or_default_def Let_def
        split: sum.splits prod.splits)
next
  show "post_query emb \<lparr>rq_query = q, rq_limit = l, rq_threshold = t\<rparr> st =
       (if q \<noteq> [] \<and> (case l of None \<Rightarrow> True | Some n \<Rightarrow> 1 \<le> n \<and> n \<le> 100)
           \<and> (case t of None \<Rightarrow> True | Some x \<Rightarrow> 0 \<le> x \<and> x \<le> 1)
        then query_handler emb \<lparr>rq_query = q, rq_limit = l, rq_threshold = t\<rparr> st
        else (ValidationError, st))"
    by (cases q) (simp_all add: post_query_def query_body_valid_def limit_in_schema_def
        threshold_in_schema_def)
qed

theorem query_handler_clamps_witness:
  "is_blank '' '' \<and>
   query_handler example_embedder
       \<lparr>rq_query = '' '', rq_limit = Some 500, rq_threshold = Some (- 1)\<rparr> crowded_store
     = (Reply 400 failed_response, crowded_store)
   \<and> \<not> is_blank ''q'' \<and> generateEmbedding example_embedder ''q'' = Inr unit_vector
   \<and> query_handler example_embedder
       \<lparr>rq_query = ''q'', rq_limit = Some 500, rq_threshold = Some (- 1)\<rparr> crowded_store
     = (Reply 200 \<lparr>results = map example_result [0..<100], query = ''q'', success = True\<rparr>,
        crowded_store)
   \<and> generateEmbedding None ''q'' = Inl (Error ''Embedding model not initialized. Call initialize() first.'')
   \<and> query_handler None
       \<lparr>rq_query = ''q'', rq_limit = Some 500, rq_threshold = Some (- 1)\<rparr> crowded_store
     = (Reply 500 failed_response, crowded_store)
   \<and> query_handler example_embedder
       \<lparr>rq_query = ''q'', rq_limit = Some 500, rq_threshold = Some (- 1)\<rparr> crowded_store
     = query_handler example_embedder
       \<lparr>rq_query = ''q'', rq_limit = Some 100, rq_threshold = Some 0\<rparr> crowded_store
   \<and> post_query example_embedder
       \<lparr>rq_query = ''q'', rq_limit = Some 500, rq_threshold = Some (- 1)\<rparr> crowded_store
     = (ValidationError, crowded_store)"
proof -
  have b: "is_blank '' ''" "\<not> is_blank ''q''" by (simp_all add: is_blank_def is_ws_def)
  note c1 = query_handler_clamps
    [where emb = example_embedder and q = "'' ''" and l = "Some 500" and t = "Some (- 1)"
       and st = crowded_store]
  note c2 = query_handler_clamps
    [where emb = example_embedder and q = "''q''" and l = "Some 500" and t = "Some (- 1)"
       and v = unit_vector and n = 500 and x = "- 1" and st = crowded_store]
  have w1: "query_handler example_embedder
       \<lparr>rq_query = '' '', rq_limit = Some 500, rq_threshold = Some (- 1)\<rparr> crowded_store
     = (Reply 400 failed_response, crowded_store)"
    using c1 b(1) by blast
  have w2: "query_handler example_embedder
       \<lparr>rq_query = ''q'', rq_limit = Some 500, rq_threshold = Some (- 1)\<rparr> crowded_store
     = (Reply 200 \<lparr>results = map example_result [0..<100], query = ''q'', success = True\<rparr>,
        crowded_store)"
    using c2 [THEN conjunct2, THEN conjunct1] b(2) example_embedding
    by (simp add: searchSimilar_crowded del: upt_Suc)
  note c3 = query_handler_clamps
    [where emb = None and q = "''q''" and l = "Some 500" and t = "Some (- 1)"
       and e = "Error ''Embedding model not initialized. Call initialize() first.''"
       and st = crowded_store]
  have g: "generateEmbedding None ''q'' = Inl (Error ''Embedding model not initialized. Call initialize() first.'')"
    by (simp add: generateEmbedding_def)
  have w5: "query_handler None
       \<lparr>rq_query = ''q'', rq_limit = Some 500, rq_threshold = Some (- 1)\<rparr> crowded_store
     = (Reply 500 failed_response, crowded_store)"
    using c3 [THEN conjunct2, THEN conjunct2, THEN conjunct1] b(2) g by blast
  have w3: "query_handler example_embedder
       \<lparr>rq_query = ''q'', rq_limit = Some 500, rq_threshold = Some (- 1)\<rparr> crowded_store
     = query_handler example_embedder
       \<lparr>rq_query = ''q'', rq_limit = Some 100, rq_threshold = Some 0\<rparr> crowded_store"
    using c2 [THEN conjunct2, THEN conjunct2, THEN conjunct2, THEN conjunct1] by simp
  have w4: "post_query example_embedder
       \<lparr>rq_query = ''q'', rq_limit = Some 500, rq_threshold = Some (- 1)\<rparr> crowded_store
     = (ValidationError, crowded_store)"
    using c2 [THEN conjunct2, THEN conjunct2, THEN conjunct2, THEN conjunct2] by simp
  show ?thesis using b example_embedding g w1 w2 w3 w4 w5 by blast
qed

text \<open>
  C7. Every point written by a store operation, single or batch, carries the caller's
  original id in its payload. \<^verbatim>\<open>storeVector\<close> writes \<^verbatim>\<open>original_id\<close>;
  \<^verbatim>\<open>storeVectors\<close> writes a payload of text, metadata and time only: the point it writes
  for a record with an id has no \<^verbatim>\<open>original_id\<close>.
\<close>

theorem storeVectors_payload_without_original_id:
  "points (snd (storeVectors g clock
      [\<lparr>vr_id = Some ''123e4567-e89b-42d3-a456-426614174000'', vr_text = ''t'',
        vr_embedding = unit_vector, vr_metadata = None\<rparr>]
      empty_store))
   = [\<lparr>point_id = ''123e4567-e89b-42d3-a456-426614174000'', vector = unit_vector,
       payload = \<lparr>original_id = None, p_text = ''t'', p_metadata = [], created_at = clock 0\<rparr>\<rparr>]"
  by (simp add: storeVectors_def vectorSize_def unit_vector_length or_else_def
      metadata_or_empty_def client_upsert_def client_call_def upsert_point_def io_defs Let_def
      empty_store_def)

text \<open>
  C8. Key derivation is idempotent: the key that \<^verbatim>\<open>convertToValidId\<close> produces for an
  id matches the native UUID format (for a non-native id it is the digest with the
  version digit 4 and a variant digit among 8, 9, a, b), so that deriving a key from it
  again returns it unchanged. For the empty id the key is what \<^verbatim>\<open>uuidv4()\<close> returned,
  a key of the native format.
\<close>

theorem convertToValidId_idempotent:
  assumes "ident \<noteq> [] \<or> uuidRegex_test u"
  shows "uuidRegex_test (convertToValidId u (Some ident))
     \<and> convertToValidId u' (Some (convertToValidId u (Some ident))) = convertToValidId u (Some ident)"
proof -
  have "uuidRegex_test (convertToValidId u (Some ident))"
    using assms by (intro convertToValidId_matches) auto
  then show ?thesis by (simp add: convertToValidId_native)
qed

theorem convertToValidId_idempotent_witness:
  "''doc_001'' \<noteq> [] \<and> uuidRegex_test (example_uuid 0)
   \<and> uuidRegex_test (convertToValidId (example_uuid 0) (Some ''doc_001''))
   \<and> convertToValidId (example_uuid 1) (Some (convertToValidId (example_uuid 0) (Some ''doc_001'')))
       = convertToValidId (example_uuid 0) (Some ''doc_001'')"
  using convertToValidId_idempotent
          [where ident = "''doc_001''" and u = "example_uuid 0" and u' = "example_uuid 1"]
        example_uuid_native
  by simp

text \<open>
  C9. \<^verbatim>\<open>storeVectors\<close> on a list in which some record's embedding does not have 384
  components fails as a whole: it throws the dimension-mismatch error of the first such
  record and makes no call of the client, so that the store is left as it was and no point
  of the batch is written.
\<close>

theorem storeVectors_all_or_nothing:
  assumes "list_ex (\<lambda>r. length (vr_embedding r) \<noteq> 384) records"
  shows "\<exists>ident n. n \<noteq> 384 \<and> storeVectors g clock records st =
      (Inl (Error (''Failed to store vectors: Embedding dimension mismatch for record '' @ ident
                   @ ''. Expected 384, got '' @ show_nat n)), st)"
proof -
  from map_records_mismatch [OF assms] obtain ident n where
    "n \<noteq> 384" and "map_records g clock 0 0 records =
      Inl (Error (''Embedding dimension mismatch for record '' @ ident
                  @ ''. Expected 384, got '' @ show_nat n))"
    by blast
  then show ?thesis by (auto simp: storeVectors_def io_defs)
qed

theorem storeVectors_all_or_nothing_witness:
  "list_ex (\<lambda>r. length (vr_embedding r) \<noteq> 384) [doc_001, short_record]
   \<and> (\<exists>ident n. n \<noteq> 384 \<and>
        storeVectors example_uuid example_clock [doc_001, short_record] empty_store =
          (Inl (Error (''Failed to store vectors: Embedding dimension mismatch for record '' @ ident
                       @ ''. Expected 384, got '' @ show_nat n)), empty_store))"
proof -
  have h: "list_ex (\<lambda>r. length (vr_embedding r) \<noteq> 384) [doc_001, short_record]"
    by (simp add: short_record_def)
  show ?thesis
    using storeVectors_all_or_nothing
            [OF h, where g = example_uuid and clock = example_clock and st = empty_store] h
    by simp
qed

text \<open>
  C10. \<^verbatim>\<open>generateEmbeddings\<close> on the empty list of texts does not return an empty list:
  it throws \<^verbatim>\<open>Input texts array cannot be empty\<close>, whatever the state of the model, and
  generates no embedding.
\<close>

theorem generateEmbeddings_empty:
  "generateEmbeddings emb [] = Inl (Error ''Input texts array cannot be empty'')"
  by (simp add: generateEmbeddings_def)

end
